theory Spec2Isabelle
  imports Main "HOL-Library.Word"
begin

section \<open>The accessibility event notifier of qmk_accessibility_hid\<close>

text \<open>
  A shallow embedding of \<^verbatim>\<open>accessibility_events.c\<close>. The file keeps three variables
  that live as long as the firmware runs (\<^verbatim>\<open>previous_layer\<close>, \<^verbatim>\<open>caps_word_state\<close> and
  the function-local static \<^verbatim>\<open>last_time\<close>); they are the fields of a record that every
  operation takes and returns. The build with \<^verbatim>\<open>CAPS_WORD_ENABLE\<close> is the one modelled;
  the \<^verbatim>\<open>CONSOLE_ENABLE\<close> logging only prints and is left out.

  What the firmware framework supplies is an input or an output of the model:
  \<^item> \<^verbatim>\<open>timer_read()\<close>: the value stored in the \<^verbatim>\<open>uint32_t current_time\<close> is an argument;
  \<^item> \<^verbatim>\<open>get_highest_layer(layer_state)\<close>: its \<^verbatim>\<open>uint8_t\<close> result is an argument;
  \<^item> \<^verbatim>\<open>raw_hid_send(data, length)\<close>: every operation returns the list of reports it
    handed to the transport, in order.
\<close>

subsection \<open>Data\<close>

type_synonym u8 = "8 word"
type_synonym u32 = "32 word"
type_synonym report = "u8 list"

record notifier_state =
  previous_layer :: u8
  caps_word_state :: bool
  last_time :: u32

text \<open>The initialisers of the three variables: 255, false and 0.\<close>

definition initial_state :: notifier_state where
  "initial_state = \<lparr>previous_layer = 255, caps_word_state = False, last_time = 0\<rparr>"

text \<open>
  Reading \<^verbatim>\<open>data[0]\<close> of a buffer that holds no byte is undefined in C; the model makes
  it an error value.
\<close>

datatype error = OutOfBoundsRead

subsection \<open>The transport\<close>

text \<open>
  \<^verbatim>\<open>raw_hid_send(data, length)\<close> hands the first \<^verbatim>\<open>length\<close> bytes of the buffer to the
  transport. The result is the list of reports written by the call: one report.
\<close>

definition raw_hid_send :: "u8 list \<Rightarrow> nat \<Rightarrow> report list" where
  "raw_hid_send data len = [take len data]"

subsection \<open>The operations\<close>

text \<open>
  \<^verbatim>\<open>raw_hid_receive(data, length)\<close>. The third argument is what
  \<^verbatim>\<open>get_highest_layer(layer_state)\<close> returns when the handler runs.
\<close>

definition raw_hid_receive ::
  "u8 list \<Rightarrow> u8 \<Rightarrow> u8 \<Rightarrow> notifier_state \<Rightarrow> error + (report list \<times> notifier_state)" where
  "raw_hid_receive data len highest_layer s =
     (case data of
        [] \<Rightarrow> Inl OutOfBoundsRead
      | b0 # _ \<Rightarrow>
          if b0 = 99 then
            (let response = (replicate 32 0)[0 := 99, 1 := highest_layer]
             in Inr (raw_hid_send response 32, s))
          else Inr ([], s))"

text \<open>
  \<^verbatim>\<open>accessibility_send_layer_change(layer)\<close>. The subtraction and the comparison are
  those of \<^verbatim>\<open>uint32_t\<close>: the difference wraps around modulo \<open>2 ^ 32\<close> and is compared
  unsigned. The early return of the debounce branch leaves every variable as it was.
\<close>

definition accessibility_send_layer_change ::
  "u8 \<Rightarrow> u32 \<Rightarrow> notifier_state \<Rightarrow> report list \<times> notifier_state" where
  "accessibility_send_layer_change layer current_time s =
     (if current_time - last_time s < 200 then ([], s)
      else if layer \<noteq> previous_layer s then
        (let data = (replicate 32 0)[0 := 1, 1 := layer]
         in (raw_hid_send data 32,
             s\<lparr>previous_layer := layer, last_time := current_time\<rparr>))
      else ([], s\<lparr>last_time := current_time\<rparr>))"

definition accessibility_send_caps_word_on ::
  "notifier_state \<Rightarrow> report list \<times> notifier_state" where
  "accessibility_send_caps_word_on s =
     (if \<not> caps_word_state s then
        (let data = (replicate 32 0)[0 := 2, 1 := 1]
         in (raw_hid_send data 32, s\<lparr>caps_word_state := True\<rparr>))
      else ([], s))"

definition accessibility_send_caps_word_off ::
  "notifier_state \<Rightarrow> report list \<times> notifier_state" where
  "accessibility_send_caps_word_off s =
     (if caps_word_state s then
        (let data = (replicate 32 0)[0 := 2, 1 := 0]
         in (raw_hid_send data 32, s\<lparr>caps_word_state := False\<rparr>))
      else ([], s))"

subsection \<open>Sequences of calls\<close>

text \<open>
  The firmware calls the four entry points one after the other on a single thread. A
  call carries the values the entry point reads from its environment.
\<close>

datatype call =
    LayerChange u8 u32
  | CapsWordOn
  | CapsWordOff
  | RawHidReceive "u8 list" u8 u8

fun dispatch :: "call \<Rightarrow> notifier_state \<Rightarrow> error + (report list \<times> notifier_state)" where
  "dispatch (LayerChange layer t) s = Inr (accessibility_send_layer_change layer t s)"
| "dispatch CapsWordOn s = Inr (accessibility_send_caps_word_on s)"
| "dispatch CapsWordOff s = Inr (accessibility_send_caps_word_off s)"
| "dispatch (RawHidReceive data len hl) s = raw_hid_receive data len hl s"

text \<open>Running a list of calls collects the reports in the order they were written.\<close>

fun run :: "call list \<Rightarrow> notifier_state \<Rightarrow> error + (report list \<times> notifier_state)" where
  "run [] s = Inr ([], s)"
| "run (c # cs) s =
     (case dispatch c s of
        Inl e \<Rightarrow> Inl e
      | Inr (out, s') \<Rightarrow>
          (case run cs s' of
             Inl e \<Rightarrow> Inl e
           | Inr (outs, s'') \<Rightarrow> Inr (out @ outs, s'')))"

text \<open>
  A sequence of layer-change calls, each a layer and a clock reading; the trace pairs
  the clock reading of every call with the reports that call wrote.
\<close>

fun layer_change_trace ::
  "notifier_state \<Rightarrow> (u8 \<times> u32) list \<Rightarrow> (u32 \<times> report list) list" where
  "layer_change_trace s [] = []"
| "layer_change_trace s ((layer, t) # cs) =
     (t, fst (accessibility_send_layer_change layer t s))
       # layer_change_trace (snd (accessibility_send_layer_change layer t s)) cs"

definition write_times :: "(u32 \<times> report list) list \<Rightarrow> u32 list" where
  "write_times tr = map fst (filter (\<lambda>e. snd e \<noteq> []) tr)"

text \<open>
  The value carried by the last report of one event type in a log of written reports,
  and a default when the log holds none of that type.
\<close>

definition last_payload :: "u8 \<Rightarrow> u8 \<Rightarrow> report list \<Rightarrow> u8" where
  "last_payload ty dflt log =
     (case rev (filter (\<lambda>r. take 1 r = [ty]) log) of
        [] \<Rightarrow> dflt
      | r # _ \<Rightarrow> (case r of _ # p # _ \<Rightarrow> p | _ \<Rightarrow> dflt))"

definition reflects_last_sent :: "notifier_state \<Rightarrow> report list \<Rightarrow> bool" where
  "reflects_last_sent s log \<longleftrightarrow>
     previous_layer s = last_payload 1 255 log \<and>
     caps_word_state s = (last_payload 2 0 log = 1)"

section \<open>Report layout\<close>

lemma report_bytes:
  "(replicate 32 (0::u8))[0 := a, Suc 0 := b] = a # b # replicate 30 0"
  by (simp add: numeral_eq_Suc)

lemma raw_hid_send_report:
  "raw_hid_send ((replicate 32 (0::u8))[0 := a, Suc 0 := b]) 32 = [a # b # replicate 30 0]"
proof -
  have "take 32 (a # b # replicate 30 (0::u8)) = a # b # replicate 30 0"
    by simp
  then show ?thesis
    unfolding raw_hid_send_def report_bytes by simp
qed

section \<open>One call of each operation\<close>

text \<open>The three branches of the layer-change operation, and the two of each other one.\<close>

lemma layer_change_debounced:
  "t - last_time s < 200 \<Longrightarrow> accessibility_send_layer_change l t s = ([], s)"
  by (simp add: accessibility_send_layer_change_def)

lemma layer_change_sent:
  "200 \<le> t - last_time s \<Longrightarrow> l \<noteq> previous_layer s \<Longrightarrow>
   accessibility_send_layer_change l t s =
     ([1 # l # replicate 30 0], s\<lparr>previous_layer := l, last_time := t\<rparr>)"
  by (simp add: accessibility_send_layer_change_def raw_hid_send_report not_less [symmetric])

lemma layer_change_same:
  "200 \<le> t - last_time s \<Longrightarrow> l = previous_layer s \<Longrightarrow>
   accessibility_send_layer_change l t s = ([], s\<lparr>last_time := t\<rparr>)"
  by (simp add: accessibility_send_layer_change_def not_less [symmetric])

lemma layer_change_out_cases:
  "fst (accessibility_send_layer_change l t s) = [] \<or>
   fst (accessibility_send_layer_change l t s) = [1 # l # replicate 30 0]"
  by (simp add: accessibility_send_layer_change_def raw_hid_send_report)

lemma caps_on_edge:
  "\<not> caps_word_state s \<Longrightarrow>
   accessibility_send_caps_word_on s =
     ([2 # 1 # replicate 30 0], s\<lparr>caps_word_state := True\<rparr>)"
  by (simp add: accessibility_send_caps_word_on_def raw_hid_send_report)

lemma caps_on_noop:
  "caps_word_state s \<Longrightarrow> accessibility_send_caps_word_on s = ([], s)"
  by (simp add: accessibility_send_caps_word_on_def)

lemma caps_off_edge:
  "caps_word_state s \<Longrightarrow>
   accessibility_send_caps_word_off s =
     ([2 # 0 # replicate 30 0], s\<lparr>caps_word_state := False\<rparr>)"
  by (simp add: accessibility_send_caps_word_off_def raw_hid_send_report)

lemma caps_off_noop:
  "\<not> caps_word_state s \<Longrightarrow> accessibility_send_caps_word_off s = ([], s)"
  by (simp add: accessibility_send_caps_word_off_def)

lemma receive_query:
  "raw_hid_receive (99 # rest) len hl s = Inr ([99 # hl # replicate 30 0], s)"
  by (simp add: raw_hid_receive_def raw_hid_send_report)

lemma receive_other:
  "b0 \<noteq> 99 \<Longrightarrow> raw_hid_receive (b0 # rest) len hl s = Inr ([], s)"
  by (simp add: raw_hid_receive_def)

section \<open>The debounce timestamp\<close>

text \<open>
  C1, as the claim states it: every call stores the clock reading in \<^verbatim>\<open>last_time\<close>, also
  a call inside the debounce window. The code returns from the debounce branch before
  the assignment: from the initial state a call at clock reading 50 is inside the window
  (50 - 0 < 200) and \<^verbatim>\<open>last_time\<close> is still 0 afterwards, not 50.
\<close>

theorem debounced_call_keeps_last_time:
  "(50::u32) - last_time initial_state < 200 \<and>
   last_time (snd (accessibility_send_layer_change 1 50 initial_state)) \<noteq> 50"
  by (simp add: accessibility_send_layer_change_def initial_state_def)

text \<open>
  C1, amended: a call inside the debounce window (the unsigned 32-bit difference between
  the clock reading and \<^verbatim>\<open>last_time\<close> is below 200) writes no report and leaves the whole
  state as it was, \<^verbatim>\<open>last_time\<close> included; a call outside the window stores the clock
  reading in \<^verbatim>\<open>last_time\<close>.
\<close>

theorem layer_change_last_time:
  "(t - last_time s < 200 \<longrightarrow> accessibility_send_layer_change layer t s = ([], s)) \<and>
   (200 \<le> t - last_time s \<longrightarrow>
      last_time (snd (accessibility_send_layer_change layer t s)) = t)"
  by (simp add: accessibility_send_layer_change_def not_less [symmetric])

theorem layer_change_last_time_witness:
  "(50::u32) - last_time initial_state < 200 \<and>
   accessibility_send_layer_change 1 50 initial_state = ([], initial_state) \<and>
   200 \<le> (250::u32) - last_time initial_state \<and>
   last_time (snd (accessibility_send_layer_change 1 250 initial_state)) = 250"
  using layer_change_last_time [of 50 initial_state 1]
    layer_change_last_time [of 250 initial_state 1]
  by (simp add: initial_state_def)

section \<open>The debounce scenario\<close>

text \<open>
  C2, as the claim states it: from the initial state the call with layer 0 at clock
  reading 0 writes the report [1, 0, 0 x 30]. In the code \<^verbatim>\<open>last_time\<close> starts at 0, so
  that call is inside the debounce window (0 - 0 < 200) and writes nothing.
\<close>

theorem startup_call_at_zero_is_debounced:
  "fst (accessibility_send_layer_change 0 0 initial_state) \<noteq> [1 # 0 # replicate 30 0]"
  by (simp add: accessibility_send_layer_change_def initial_state_def)

text \<open>
  C2, amended. From the initial state the call with layer 0 at clock reading 0 is inside
  the debounce window: it writes nothing and changes nothing; made at a clock reading of
  200 or more it writes [1, 0, 0 x 30]. Take three calls in a row with clock readings
  \<open>t0\<close>, \<open>t1\<close> and \<open>t2\<close>, where the first is outside the debounce window
  (\<open>200 \<le> t0 - last_time\<close>) and has a layer other than \<^verbatim>\<open>previous_layer\<close>, the second
  reading is less than 200 past the first (\<open>t1 - t0 < 200\<close>), the third is 200 or more
  past the first (\<open>200 \<le> t2 - t0\<close>) and the third layer is not the first layer; all
  differences are the unsigned 32-bit ones the code computes, and readings \<open>t0\<close>,
  \<open>t0 + 150\<close>, \<open>t0 + 210\<close> are the instance of the scenario. Then the first and the
  third call write their report and the second writes nothing, whatever its layer. From
  the initial state, with the three calls at readings 0, 150 and 210, the first two
  calls write nothing, and the third writes its report exactly when its layer is not
  255.
\<close>

theorem layer_change_debounce_scenario:
  "accessibility_send_layer_change 0 0 initial_state = ([], initial_state) \<and>
   (200 \<le> t \<longrightarrow>
      fst (accessibility_send_layer_change 0 t initial_state) = [1 # 0 # replicate 30 0]) \<and>
   (200 \<le> t0 - last_time s \<and> l1 \<noteq> previous_layer s \<and>
    t1 - t0 < 200 \<and> 200 \<le> t2 - t0 \<and> l3 \<noteq> l1 \<longrightarrow>
      map snd (layer_change_trace s [(l1, t0), (l2, t1), (l3, t2)]) =
        [[1 # l1 # replicate 30 0], [], [1 # l3 # replicate 30 0]]) \<and>
   (200 \<le> t0 - last_time s \<and> l1 \<noteq> previous_layer s \<and> l3 \<noteq> l1 \<longrightarrow>
      map snd (layer_change_trace s [(l1, t0), (l2, t0 + 150), (l3, t0 + 210)]) =
        [[1 # l1 # replicate 30 0], [], [1 # l3 # replicate 30 0]]) \<and>
   map snd (layer_change_trace initial_state [(l1, 0), (l2, 150), (l3, 210)]) =
     [[], [], if l3 = 255 then [] else [1 # l3 # replicate 30 0]]"
  by (simp add: accessibility_send_layer_change_def raw_hid_send_report initial_state_def
        not_less [symmetric])

theorem layer_change_debounce_scenario_witness:
  "(200::u32) \<le> 200 \<and>
   fst (accessibility_send_layer_change 0 200 initial_state) = [1 # 0 # replicate 30 0] \<and>
   200 \<le> (300::u32) - last_time initial_state \<and>
   (1::u8) \<noteq> previous_layer initial_state \<and>
   (450::u32) - 300 < 200 \<and> 200 \<le> (510::u32) - 300 \<and> (3::u8) \<noteq> 1 \<and>
   map snd (layer_change_trace initial_state [(1, 300), (2, 450), (3, 510)]) =
     [[1 # 1 # replicate 30 0], [], [1 # 3 # replicate 30 0]] \<and>
   map snd (layer_change_trace initial_state [(1, 300), (2, 300 + 150), (3, 300 + 210)]) =
     [[1 # 1 # replicate 30 0], [], [1 # 3 # replicate 30 0]] \<and>
   map snd (layer_change_trace initial_state [(1, 0), (2, 150), (3, 210)]) =
     [[], [], [1 # 3 # replicate 30 0]] \<and>
   map snd (layer_change_trace initial_state [(1, 0), (2, 150), (255, 210)]) =
     [[], [], []]"
  using layer_change_debounce_scenario [of 200 300 initial_state 1 450 510 3 2]
    layer_change_debounce_scenario [of 200 300 initial_state 1 450 510 255 2]
  by (simp add: initial_state_def)

section \<open>A call outside the debounce window\<close>

text \<open>
  C3. A call whose clock reading is 200 or more past \<^verbatim>\<open>last_time\<close> (unsigned 32-bit
  difference): with a layer other than \<^verbatim>\<open>previous_layer\<close> it writes exactly the one
  32-byte report [1, layer, 0 x 30] and \<^verbatim>\<open>previous_layer\<close> is the layer afterwards; with
  the layer equal to \<^verbatim>\<open>previous_layer\<close> it writes nothing. Two calls in a row with layer
  5, at any two clock readings and from any state, write at most one report together,
  and none when \<^verbatim>\<open>previous_layer\<close> was 5 already.
\<close>

theorem layer_change_past_debounce:
  "(200 \<le> t - last_time s \<and> layer \<noteq> previous_layer s \<longrightarrow>
      fst (accessibility_send_layer_change layer t s) = [1 # layer # replicate 30 0] \<and>
      length (1 # layer # replicate 30 0) = 32 \<and>
      previous_layer (snd (accessibility_send_layer_change layer t s)) = layer) \<and>
   (200 \<le> t - last_time s \<and> layer = previous_layer s \<longrightarrow>
      fst (accessibility_send_layer_change layer t s) = []) \<and>
   length (fst (accessibility_send_layer_change 5 t1 s) @
           fst (accessibility_send_layer_change 5 t2
                  (snd (accessibility_send_layer_change 5 t1 s)))) \<le> 1 \<and>
   (previous_layer s = 5 \<longrightarrow>
      fst (accessibility_send_layer_change 5 t1 s) @
      fst (accessibility_send_layer_change 5 t2
             (snd (accessibility_send_layer_change 5 t1 s))) = [])"
  by (simp add: accessibility_send_layer_change_def raw_hid_send_report not_less [symmetric])

theorem layer_change_past_debounce_witness:
  "200 \<le> (300::u32) - last_time initial_state \<and> (5::u8) \<noteq> previous_layer initial_state \<and>
   fst (accessibility_send_layer_change 5 300 initial_state) = [1 # 5 # replicate 30 0] \<and>
   previous_layer (snd (accessibility_send_layer_change 5 300 initial_state)) = 5 \<and>
   (255::u8) = previous_layer initial_state \<and>
   fst (accessibility_send_layer_change 255 300 initial_state) = [] \<and>
   previous_layer (initial_state\<lparr>previous_layer := 5\<rparr>) = 5 \<and>
   fst (accessibility_send_layer_change 5 300 (initial_state\<lparr>previous_layer := 5\<rparr>)) @
   fst (accessibility_send_layer_change 5 900
          (snd (accessibility_send_layer_change 5 300 (initial_state\<lparr>previous_layer := 5\<rparr>)))) = []"
  using layer_change_past_debounce [of 300 initial_state 5 300 900]
    layer_change_past_debounce [of 300 initial_state 255 300 900]
    layer_change_past_debounce [of 300 "initial_state\<lparr>previous_layer := 5\<rparr>" 5 300 900]
  by (simp add: initial_state_def)

section \<open>The variables follow the reports written\<close>

lemma last_payload_Nil: "last_payload ty d [] = d"
  by (simp add: last_payload_def)

lemma last_payload_snoc:
  "last_payload ty d (log @ [ty' # p # rest]) = (if ty' = ty then p else last_payload ty d log)"
  by (simp add: last_payload_def)

lemma dispatch_preserves:
  assumes "reflects_last_sent s log" and "dispatch c s = Inr (out, s')"
  shows "reflects_last_sent s' (log @ out)"
proof (cases c)
  case (LayerChange l t)
  then show ?thesis
    using assms
    by (auto simp: reflects_last_sent_def accessibility_send_layer_change_def
        raw_hid_send_report last_payload_snoc split: if_splits)
next
  case CapsWordOn
  then show ?thesis
    using assms
    by (auto simp: reflects_last_sent_def accessibility_send_caps_word_on_def
        raw_hid_send_report last_payload_snoc split: if_splits)
next
  case CapsWordOff
  then show ?thesis
    using assms
    by (auto simp: reflects_last_sent_def accessibility_send_caps_word_off_def
        raw_hid_send_report last_payload_snoc split: if_splits)
next
  case (RawHidReceive data len hl)
  then show ?thesis
    using assms
    by (auto simp: reflects_last_sent_def raw_hid_receive_def
        raw_hid_send_report last_payload_snoc split: if_splits list.splits)
qed

lemma dispatch_skip_unchanged:
  assumes "dispatch c s = Inr ([], s')"
  shows "previous_layer s' = previous_layer s \<and> caps_word_state s' = caps_word_state s"
  using assms
  by (cases c)
    (auto simp: accessibility_send_layer_change_def accessibility_send_caps_word_on_def
      accessibility_send_caps_word_off_def raw_hid_receive_def raw_hid_send_def
      split: if_splits list.splits)

lemma run_preserves:
  "reflects_last_sent s log \<Longrightarrow> run cs s = Inr (out, s') \<Longrightarrow> reflects_last_sent s' (log @ out)"
proof (induction cs arbitrary: s log out)
  case Nil
  then show ?case by simp
next
  case (Cons c cs)
  from Cons.prems(2) obtain o1 s1 o2 where
    d: "dispatch c s = Inr (o1, s1)" and r: "run cs s1 = Inr (o2, s')" and o: "out = o1 @ o2"
    by (auto split: sum.splits prod.splits)
  from dispatch_preserves [OF Cons.prems(1) d] have "reflects_last_sent s1 (log @ o1)" .
  from Cons.IH [OF this r] show ?case by (simp add: o)
qed

lemma initial_reflects: "reflects_last_sent initial_state []"
  by (simp add: reflects_last_sent_def initial_state_def last_payload_Nil)

text \<open>
  A sequence of calls runs to its end unless the handler is given a buffer with no byte
  to read.
\<close>

lemma run_returns:
  "\<forall>c\<in>set cs. \<forall>len hl. c \<noteq> RawHidReceive [] len hl \<Longrightarrow> \<exists>outs s'. run cs s = Inr (outs, s')"
proof (induction cs arbitrary: s)
  case Nil
  then show ?case by simp
next
  case (Cons c cs)
  have "\<exists>o1 s1. dispatch c s = Inr (o1, s1)"
  proof (cases c)
    case (RawHidReceive data len hl)
    with Cons.prems have "data \<noteq> []" by auto
    then show ?thesis
      using RawHidReceive by (cases data) (auto simp: raw_hid_receive_def)
  qed (auto intro: prod.exhaust)
  then obtain o1 s1 where d: "dispatch c s = Inr (o1, s1)" by blast
  from Cons.IH [of s1] Cons.prems obtain o2 s2 where "run cs s1 = Inr (o2, s2)" by auto
  with d show ?case by simp
qed

text \<open>
  C4. The invariant \<open>reflects_last_sent\<close> says that \<^verbatim>\<open>previous_layer\<close> is the layer byte
  of the last layer-change report in the log of written reports (255 when there is
  none) and that \<^verbatim>\<open>caps_word_state\<close> is true exactly when the last Caps Word report in
  the log carries 1 (false when there is none). It holds of the initial state with the
  empty log, every call of the four entry points preserves it, so it holds after every
  sequence of calls from the initial state; and a call that writes no report leaves
  \<^verbatim>\<open>previous_layer\<close> and \<^verbatim>\<open>caps_word_state\<close> as they were.
\<close>

theorem last_sent_invariant:
  "reflects_last_sent initial_state [] \<and>
   (reflects_last_sent s log \<and> dispatch c s = Inr (out, s') \<longrightarrow>
      reflects_last_sent s' (log @ out)) \<and>
   (run cs initial_state = Inr (outs, s'') \<longrightarrow> reflects_last_sent s'' outs) \<and>
   (dispatch c s = Inr ([], s') \<longrightarrow>
      previous_layer s' = previous_layer s \<and> caps_word_state s' = caps_word_state s)"
  using initial_reflects dispatch_preserves dispatch_skip_unchanged
    run_preserves [OF initial_reflects, of cs outs s'']
  by auto

theorem last_sent_invariant_witness:
  "reflects_last_sent initial_state [] \<and>
   dispatch (LayerChange 3 300) initial_state =
     Inr ([1 # 3 # replicate 30 0], initial_state\<lparr>previous_layer := 3, last_time := 300\<rparr>) \<and>
   reflects_last_sent (initial_state\<lparr>previous_layer := 3, last_time := 300\<rparr>)
     ([] @ [1 # 3 # replicate 30 0]) \<and>
   run [LayerChange 3 300, CapsWordOn, LayerChange 4 350] initial_state =
     Inr ([1 # 3 # replicate 30 0, 2 # 1 # replicate 30 0],
          \<lparr>previous_layer = 3, caps_word_state = True, last_time = 300\<rparr>) \<and>
   reflects_last_sent \<lparr>previous_layer = 3, caps_word_state = True, last_time = 300\<rparr>
     [1 # 3 # replicate 30 0, 2 # 1 # replicate 30 0] \<and>
   dispatch (LayerChange 4 50) initial_state = Inr ([], initial_state) \<and>
   previous_layer initial_state = previous_layer initial_state \<and>
   caps_word_state initial_state = caps_word_state initial_state"
proof -
  have d: "dispatch (LayerChange 3 300) initial_state =
     Inr ([1 # 3 # replicate 30 0], initial_state\<lparr>previous_layer := 3, last_time := 300\<rparr>)"
    by (simp add: accessibility_send_layer_change_def raw_hid_send_report initial_state_def)
  have r: "run [LayerChange 3 300, CapsWordOn, LayerChange 4 350] initial_state =
     Inr ([1 # 3 # replicate 30 0, 2 # 1 # replicate 30 0],
          \<lparr>previous_layer = 3, caps_word_state = True, last_time = 300\<rparr>)"
    by (simp add: accessibility_send_layer_change_def accessibility_send_caps_word_on_def
        raw_hid_send_report initial_state_def)
  have k: "dispatch (LayerChange 4 50) initial_state = Inr ([], initial_state)"
    by (simp add: accessibility_send_layer_change_def initial_state_def)
  show ?thesis
    using d r k
      last_sent_invariant [of initial_state "[]" "LayerChange 3 300" "[1 # 3 # replicate 30 0]"
        "initial_state\<lparr>previous_layer := 3, last_time := 300\<rparr>"
        "[LayerChange 3 300, CapsWordOn, LayerChange 4 350]"
        "[1 # 3 # replicate 30 0, 2 # 1 # replicate 30 0]"
        "\<lparr>previous_layer = 3, caps_word_state = True, last_time = 300\<rparr>"]
      last_sent_invariant [of initial_state "[]" "LayerChange 4 50" "[]" initial_state]
    by simp
qed

section \<open>Caps Word\<close>

text \<open>
  C5, as the claim states it: two calls of \<^verbatim>\<open>accessibility_send_caps_word_off\<close> in a row
  write exactly one report. From the initial state, where Caps Word is off, neither call
  finds a change to report: the two calls write nothing and leave the state as it was.
\<close>

theorem caps_word_off_twice_at_startup:
  "run [CapsWordOff, CapsWordOff] initial_state = Inr ([], initial_state)"
  by (simp add: accessibility_send_caps_word_off_def initial_state_def)

text \<open>
  C5, amended. The two Caps Word operations write a report only on a change of
  \<^verbatim>\<open>caps_word_state\<close>. In every state a second call of the same operation writes nothing
  and changes nothing. Two calls of \<^verbatim>\<open>accessibility_send_caps_word_on\<close> in a row write
  exactly one report, [2, 1, 0 x 30], when begun with Caps Word off, and nothing when
  begun with Caps Word on; two calls of \<^verbatim>\<open>accessibility_send_caps_word_off\<close> in a row
  write exactly one report, [2, 0, 0 x 30], when begun with Caps Word on, and nothing
  when begun with Caps Word off. Neither operation reads or writes \<^verbatim>\<open>last_time\<close>: the
  reports written do not depend on it. From the initial state the calls on, on, off,
  off, on write exactly three reports, with first two bytes [2, 1], [2, 0], [2, 1] in
  that order.
\<close>

theorem caps_word_edge_triggered:
  "accessibility_send_caps_word_on (snd (accessibility_send_caps_word_on s)) =
     ([], snd (accessibility_send_caps_word_on s)) \<and>
   accessibility_send_caps_word_off (snd (accessibility_send_caps_word_off s)) =
     ([], snd (accessibility_send_caps_word_off s)) \<and>
   (\<not> caps_word_state s \<longrightarrow>
      run [CapsWordOn, CapsWordOn] s =
        Inr ([2 # 1 # replicate 30 0], s\<lparr>caps_word_state := True\<rparr>)) \<and>
   (caps_word_state s \<longrightarrow> run [CapsWordOn, CapsWordOn] s = Inr ([], s)) \<and>
   (caps_word_state s \<longrightarrow>
      run [CapsWordOff, CapsWordOff] s =
        Inr ([2 # 0 # replicate 30 0], s\<lparr>caps_word_state := False\<rparr>)) \<and>
   (\<not> caps_word_state s \<longrightarrow> run [CapsWordOff, CapsWordOff] s = Inr ([], s)) \<and>
   fst (accessibility_send_caps_word_on (s\<lparr>last_time := t\<rparr>)) =
     fst (accessibility_send_caps_word_on s) \<and>
   fst (accessibility_send_caps_word_off (s\<lparr>last_time := t\<rparr>)) =
     fst (accessibility_send_caps_word_off s) \<and>
   last_time (snd (accessibility_send_caps_word_on s)) = last_time s \<and>
   last_time (snd (accessibility_send_caps_word_off s)) = last_time s \<and>
   run [CapsWordOn, CapsWordOn, CapsWordOff, CapsWordOff, CapsWordOn] initial_state =
     Inr ([2 # 1 # replicate 30 0, 2 # 0 # replicate 30 0, 2 # 1 # replicate 30 0],
          initial_state\<lparr>caps_word_state := True\<rparr>)"
  by (simp add: accessibility_send_caps_word_on_def accessibility_send_caps_word_off_def
      raw_hid_send_report initial_state_def)

theorem caps_word_edge_triggered_witness:
  "\<not> caps_word_state initial_state \<and>
   run [CapsWordOn, CapsWordOn] initial_state =
     Inr ([2 # 1 # replicate 30 0], initial_state\<lparr>caps_word_state := True\<rparr>) \<and>
   run [CapsWordOff, CapsWordOff] initial_state = Inr ([], initial_state) \<and>
   caps_word_state (initial_state\<lparr>caps_word_state := True\<rparr>) \<and>
   run [CapsWordOff, CapsWordOff] (initial_state\<lparr>caps_word_state := True\<rparr>) =
     Inr ([2 # 0 # replicate 30 0], initial_state) \<and>
   run [CapsWordOn, CapsWordOn] (initial_state\<lparr>caps_word_state := True\<rparr>) =
     Inr ([], initial_state\<lparr>caps_word_state := True\<rparr>)"
  using caps_word_edge_triggered [of initial_state]
    caps_word_edge_triggered [of "initial_state\<lparr>caps_word_state := True\<rparr>"]
  by (simp add: initial_state_def)

section \<open>The inbound handler\<close>

text \<open>
  C6. For a packet whose byte 0 is 99 the handler writes, within the call, exactly one
  report of 32 bytes, [99, L, 0 x 30], where L is what
  \<^verbatim>\<open>get_highest_layer(layer_state)\<close> returns at that moment, whatever \<^verbatim>\<open>previous_layer\<close>
  holds; the state is unchanged. With the packet [99, 0 x 31] and L = 3 the one report
  is [99, 3, 0 x 30].
\<close>

theorem receive_layer_query:
  "raw_hid_receive (99 # rest) len highest_layer s =
     Inr ([99 # highest_layer # replicate 30 0], s) \<and>
   length (99 # highest_layer # replicate 30 (0::u8)) = 32 \<and>
   raw_hid_receive (99 # replicate 31 0) 32 3 s = Inr ([99 # 3 # replicate 30 0], s)"
  by (simp add: receive_query)

text \<open>
  C7. For a packet whose byte 0 is not 99 the handler writes no report, returns
  normally and leaves the state unchanged.
\<close>

theorem receive_unknown_command_ignored:
  "b0 \<noteq> 99 \<Longrightarrow> raw_hid_receive (b0 # rest) len highest_layer s = Inr ([], s)"
  by (simp add: raw_hid_receive_def)

theorem receive_unknown_command_ignored_witness:
  "(7::u8) \<noteq> 99 \<and> raw_hid_receive (7 # replicate 31 0) 32 3 initial_state = Inr ([], initial_state)"
  using receive_unknown_command_ignored [of 7 "replicate 31 0" 32 3 initial_state] by simp

text \<open>
  C9. The handler never looks at the declared length: for every buffer, two calls that
  differ only in the length (0 included) write the same reports and give the same
  state; and of the buffer only byte 0 matters.
\<close>

theorem receive_ignores_length:
  "raw_hid_receive data len1 highest_layer s = raw_hid_receive data len2 highest_layer s \<and>
   raw_hid_receive (b0 # rest1) len1 highest_layer s =
     raw_hid_receive (b0 # rest2) len2 highest_layer s"
  by (simp add: raw_hid_receive_def)

section \<open>The distance between two layer-change writes\<close>

lemma past_window_nat:
  fixes t l :: u32
  assumes "unat l \<le> unat t" and "\<not> t - l < 200"
  shows "unat l + 200 \<le> unat t"
proof -
  from assms(1) have "l \<le> t" by (simp add: word_le_nat_alt)
  then have "unat (t - l) = unat t - unat l" by (rule unat_sub)
  moreover from assms(2) have "200 \<le> unat (t - l)"
    by (simp add: word_less_nat_alt not_less)
  ultimately show ?thesis using assms(1) by arith
qed

lemma writes_after_last_time:
  "sorted (map (\<lambda>c. unat (snd c)) cs) \<Longrightarrow>
   \<forall>c\<in>set cs. unat (last_time s) \<le> unat (snd c) \<Longrightarrow>
   \<forall>w\<in>set (write_times (layer_change_trace s cs)). unat (last_time s) + 200 \<le> unat w"
proof (induction cs arbitrary: s)
  case Nil
  then show ?case by (simp add: write_times_def)
next
  case (Cons c cs)
  obtain l t where c: "c = (l, t)" by (cases c)
  let ?r = "accessibility_send_layer_change l t s"
  from Cons.prems c have le: "unat (last_time s) \<le> unat t" by simp
  from Cons.prems have srt: "sorted (map (\<lambda>c. unat (snd c)) cs)" by simp
  show ?case
  proof (cases "t - last_time s < 200")
    case True
    then have "?r = ([], s)" by (rule layer_change_debounced)
    moreover have "\<forall>w\<in>set (write_times (layer_change_trace s cs)).
        unat (last_time s) + 200 \<le> unat w"
      using Cons.IH [OF srt] Cons.prems(2) by simp
    ultimately show ?thesis by (simp add: c write_times_def)
  next
    case False
    with le have far: "unat (last_time s) + 200 \<le> unat t" by (rule past_window_nat)
    from False have lt: "last_time (snd ?r) = t"
      by (simp add: accessibility_send_layer_change_def)
    have "\<forall>c\<in>set cs. unat (last_time (snd ?r)) \<le> unat (snd c)"
      using Cons.prems(1) c lt by auto
    from Cons.IH [OF srt this]
    have "\<forall>w\<in>set (write_times (layer_change_trace (snd ?r) cs)). unat t + 200 \<le> unat w"
      by (simp add: lt)
    with far show ?thesis by (auto simp: c write_times_def)
  qed
qed

lemma writes_separated:
  "sorted (map (\<lambda>c. unat (snd c)) cs) \<Longrightarrow>
   sorted_wrt (\<lambda>a b. unat a + 200 \<le> unat b) (write_times (layer_change_trace s cs))"
proof (induction cs arbitrary: s)
  case Nil
  then show ?case by (simp add: write_times_def)
next
  case (Cons c cs)
  obtain l t where c: "c = (l, t)" by (cases c)
  let ?r = "accessibility_send_layer_change l t s"
  from Cons.prems have srt: "sorted (map (\<lambda>c. unat (snd c)) cs)" by simp
  have tail: "sorted_wrt (\<lambda>a b. unat a + 200 \<le> unat b)
      (write_times (layer_change_trace (snd ?r) cs))"
    by (rule Cons.IH [OF srt])
  show ?case
  proof (cases "fst ?r = []")
    case True
    with tail show ?thesis by (simp add: c write_times_def)
  next
    case False
    then have lt: "last_time (snd ?r) = t"
      by (auto simp: accessibility_send_layer_change_def split: if_splits)
    have "\<forall>c\<in>set cs. unat (last_time (snd ?r)) \<le> unat (snd c)"
      using Cons.prems c lt by auto
    from writes_after_last_time [OF srt this]
    have "\<forall>w\<in>set (write_times (layer_change_trace (snd ?r) cs)). unat t + 200 \<le> unat w"
      by (simp add: lt)
    with tail False show ?thesis by (simp add: c write_times_def)
  qed
qed

lemma trace_one_report:
  "\<forall>e\<in>set (layer_change_trace s cs). length (snd e) \<le> 1 \<and> (\<forall>r\<in>set (snd e). length r = 32)"
proof (induction cs arbitrary: s)
  case Nil
  then show ?case by simp
next
  case (Cons c cs)
  obtain l t where c: "c = (l, t)" by (cases c)
  from layer_change_out_cases [of l t s] Cons.IH show ?case
    by (auto simp: c)
qed

text \<open>
  What the code does guarantee: one call writes at most one report, of 32 bytes, and in a
  sequence of calls whose clock readings never decrease as 32-bit values, begun in any
  state, the readings of any two calls that wrote a report are at least 200 apart.
\<close>

lemma writes_separated_while_readings_grow:
  "length (fst (accessibility_send_layer_change layer t s)) \<le> 1 \<and>
   (\<forall>r\<in>set (fst (accessibility_send_layer_change layer t s)). length r = 32) \<and>
   (\<forall>e\<in>set (layer_change_trace s cs). length (snd e) \<le> 1 \<and> (\<forall>r\<in>set (snd e). length r = 32)) \<and>
   (sorted (map (\<lambda>c. unat (snd c)) cs) \<longrightarrow>
      sorted_wrt (\<lambda>a b. unat a + 200 \<le> unat b) (write_times (layer_change_trace s cs)))"
  using layer_change_out_cases [of layer t s] trace_one_report [of s cs] writes_separated [of cs s]
  by auto

text \<open>
  C8. The property: no two layer-change reports are written within 200 ms of each other.
  The code compares the readings as \<^verbatim>\<open>uint32_t\<close>, but the reading comes from
  \<^verbatim>\<open>timer_read()\<close>, the framework's millisecond timer of 16 bits, which starts again at
  0 after 65535. A call at reading 65500 and a call 136 ms later, at reading 100, are
  such a pair: the code computes 100 - 65500 in 32 bits, which is 4294901896 and not
  below 200, so the second call is not debounced and both calls write their report.
\<close>

theorem layer_change_writes_across_timer_wrap:
  "(100::u32) - 65500 = 4294901896 \<and>
   layer_change_trace initial_state [(1, 65500), (2, 100)] =
     [(65500, [1 # 1 # replicate 30 0]), (100, [1 # 2 # replicate 30 0])] \<and>
   write_times (layer_change_trace initial_state [(1, 65500), (2, 100)]) = [65500, 100]"
  by (simp add: write_times_def accessibility_send_layer_change_def raw_hid_send_report
      initial_state_def)

section \<open>Layer 255 and the initial value of the tracked layer\<close>

lemma sentinel_trace:
  "previous_layer s = 255 \<Longrightarrow>
   map snd (layer_change_trace s (map (Pair 255) ts)) = replicate (length ts) []"
proof (induction ts arbitrary: s)
  case Nil
  then show ?case by simp
next
  case (Cons t ts)
  have "fst (accessibility_send_layer_change 255 t s) = []"
    and "previous_layer (snd (accessibility_send_layer_change 255 t s)) = 255"
    using Cons.prems by (simp_all add: accessibility_send_layer_change_def)
  with Cons.IH show ?case by simp
qed

text \<open>
  C10. \<^verbatim>\<open>previous_layer\<close> starts at 255 and the test for a change compares the argument
  with it. From the initial state a call with layer 255 writes no report at any clock
  reading, and neither does any call of a sequence of calls that all carry layer 255.
\<close>

theorem sentinel_layer_never_sent:
  "fst (accessibility_send_layer_change 255 t initial_state) = [] \<and>
   map snd (layer_change_trace initial_state (map (Pair 255) ts)) = replicate (length ts) []"
  using sentinel_trace [of initial_state ts]
  by (simp add: accessibility_send_layer_change_def initial_state_def)

end
